theory Spec2Isabelle
  imports Main "HOL-Library.Word"
begin

section \<open>Bytes, bytearrays and exceptions\<close>

text \<open>
  A Python \<^verbatim>\<open>bytearray\<close> is a mutable sequence of integers in \<open>0..255\<close>: its
  contents are a list of 8-bit words. Exceptions are values: the class of the exception
  with the message it is raised with. Every operation returns its outcome together with
  the state it leaves behind, so that what an operation has written before it raises is
  part of the model.
\<close>

type_synonym byte = "8 word"
type_synonym bytearray = "byte list"

datatype error =
    MemoryError string
  | IndexError string
  | ValueError string
  | OverflowError
  | ZeroDivisionError

text \<open>The exceptions of \<^verbatim>\<open>memory.py\<close>, under the names the specification gives them.\<close>

abbreviation OutOfCapacity :: error where
  "OutOfCapacity \<equiv> MemoryError ''Program memory is full.''"

abbreviation MemoryFull :: error where
  "MemoryFull \<equiv> MemoryError ''Memory is full, cannot load program.''"

abbreviation OutOfBounds :: error where
  "OutOfBounds \<equiv> IndexError ''Address out of bounds.''"

abbreviation PartitionOutOfBounds :: error where
  "PartitionOutOfBounds \<equiv> IndexError ''Partition range out of bounds.''"

abbreviation InvalidByteValue :: error where
  "InvalidByteValue \<equiv> ValueError ''Value must be a byte (0-255).''"

text \<open>The exceptions raised by \<^verbatim>\<open>bytearray\<close> itself.\<close>

abbreviation negative_count :: error where
  "negative_count \<equiv> ValueError ''negative count''"

abbreviation byte_out_of_range :: error where
  "byte_out_of_range \<equiv> ValueError ''byte must be in range(0, 256)''"

abbreviation index_out_of_range :: error where
  "index_out_of_range \<equiv> IndexError ''bytearray index out of range''"

abbreviation no_memory :: error where
  "no_memory \<equiv> MemoryError []"

text \<open>
  \<^verbatim>\<open>bytearray(count)\<close> on a 64-bit CPython. The count is converted to a signed
  64-bit index first, which raises \<^verbatim>\<open>OverflowError\<close> outside \<open>-2^63 .. 2^63 - 1\<close>;
  a negative count then raises \<^verbatim>\<open>ValueError\<close>; a positive count is allocated, which
  raises a \<^verbatim>\<open>MemoryError\<close> without message when the allocator refuses it, as it
  always does at \<open>2^63 - 1\<close>. What the allocator grants depends on the machine: \<open>limit\<close>
  is the largest count it grants. The result holds \<open>count\<close> zero bytes.
\<close>

definition bytearray_of_count :: "int \<Rightarrow> int \<Rightarrow> error + bytearray" where
  "bytearray_of_count limit count =
     (if count < - (2 ^ 63) \<or> 2 ^ 63 \<le> count then Inl OverflowError
      else if count < 0 then Inl negative_count
      else if 0 < count \<and> (limit < count \<or> 2 ^ 63 - 1 \<le> count) then Inl no_memory
      else Inr (replicate (nat count) 0))"

text \<open>
  Slices with non-negative bounds, the only ones \<^verbatim>\<open>memory.py\<close> takes. Python clamps
  both bounds to the length: \<^verbatim>\<open>xs[s:e]\<close> is a new object holding the elements from
  \<open>s\<close> up to \<open>e\<close>, and \<^verbatim>\<open>xs[s:e] = ys\<close> replaces that range by all of \<open>ys\<close>, so the
  bytearray shrinks or grows when the lengths differ.
\<close>

definition getslice :: "'a list \<Rightarrow> nat \<Rightarrow> nat \<Rightarrow> 'a list" where
  "getslice xs s e = take (e - s) (drop s xs)"

definition setslice :: "'a list \<Rightarrow> nat \<Rightarrow> nat \<Rightarrow> 'a list \<Rightarrow> 'a list" where
  "setslice xs s e ys = take s xs @ ys @ drop (max s e) xs"

section \<open>Program\<close>

record Program =
  Program_size :: int
  Program_instructions :: bytearray

text \<open>
  \<^verbatim>\<open>Program.__init__(self, size=32)\<close>: the constructor itself checks nothing; it
  fails when \<^verbatim>\<open>bytearray(size)\<close> raises. The first argument is the largest count
  the allocator grants.
\<close>

definition Program_init :: "int \<Rightarrow> int \<Rightarrow> error + Program" where
  "Program_init limit sz =
     (case bytearray_of_count limit sz of
        Inl e \<Rightarrow> Inl e
      | Inr instructions \<Rightarrow> Inr \<lparr>Program_size = sz, Program_instructions = instructions\<rparr>)"

text \<open>
  \<^verbatim>\<open>Program.add_instruction\<close>: the loop over \<^verbatim>\<open>range(self.size)\<close>, as a recursion
  over the indices still to visit. The item assignment raises for a value that is not a
  byte; leaving the loop raises \<^verbatim>\<open>MemoryError\<close>.
\<close>

fun add_instruction_loop :: "Program \<Rightarrow> int \<Rightarrow> nat list \<Rightarrow> (error + int) \<times> Program" where
  "add_instruction_loop p instruction [] = (Inl OutOfCapacity, p)"
| "add_instruction_loop p instruction (i # rest) =
     (if length (Program_instructions p) \<le> i then (Inl index_out_of_range, p)
      else if Program_instructions p ! i = 0 then
        (if 0 \<le> instruction \<and> instruction < 256
         then (Inr (int i),
               p\<lparr>Program_instructions := (Program_instructions p)[i := word_of_int instruction]\<rparr>)
         else (Inl byte_out_of_range, p))
      else add_instruction_loop p instruction rest)"

definition add_instruction :: "Program \<Rightarrow> int \<Rightarrow> (error + int) \<times> Program" where
  "add_instruction p instruction =
     add_instruction_loop p instruction [0..<nat (Program_size p)]"

text \<open>
  Successive calls on one program, as the driver at the end of \<^verbatim>\<open>memory.py\<close> makes
  them: the outcome of every call in order, and the program after the last one.
\<close>

fun add_instructions :: "Program \<Rightarrow> int list \<Rightarrow> (error + int) list \<times> Program" where
  "add_instructions p [] = ([], p)"
| "add_instructions p (v # vs) =
     (case add_instruction p v of (r, p') \<Rightarrow>
        (case add_instructions p' vs of (rs, p'') \<Rightarrow> (r # rs, p'')))"

text \<open>
  What the constructor establishes and \<^verbatim>\<open>add_instruction\<close> keeps: the \<open>size\<close>
  attribute is the length of the buffer.
\<close>

definition Program_ok :: "Program \<Rightarrow> bool" where
  "Program_ok p \<longleftrightarrow> Program_size p = int (length (Program_instructions p))"

text \<open>The number of slots holding 0, and the lowest-indexed one.\<close>

definition free_slots :: "Program \<Rightarrow> nat" where
  "free_slots p = count_list (Program_instructions p) 0"

definition lowest_zero :: "bytearray \<Rightarrow> nat \<Rightarrow> bool" where
  "lowest_zero xs i \<longleftrightarrow> i < length xs \<and> xs ! i = 0 \<and> (\<forall>j<i. xs ! j \<noteq> 0)"

section \<open>Loaders\<close>

text \<open>
  \<^verbatim>\<open>StaticLoader.load(program, memory)\<close> receives the bytearray object itself. The
  loop \<^verbatim>\<open>for _byte in memory\<close> visits the bytes in order; at the first zero byte it
  assigns the slice \<^verbatim>\<open>memory[:len(program.instructions)]\<close> and returns. Leaving
  the loop raises. The result pairs the outcome with the contents of \<open>memory\<close> afterwards.
\<close>

fun StaticLoader_load_loop ::
  "Program \<Rightarrow> bytearray \<Rightarrow> byte list \<Rightarrow> (error + unit) \<times> bytearray" where
  "StaticLoader_load_loop program memory [] = (Inl MemoryFull, memory)"
| "StaticLoader_load_loop program memory (b # rest) =
     (if b = 0
      then (Inr (), setslice memory 0 (length (Program_instructions program))
                      (Program_instructions program))
      else StaticLoader_load_loop program memory rest)"

definition StaticLoader_load :: "Program \<Rightarrow> bytearray \<Rightarrow> (error + unit) \<times> bytearray" where
  "StaticLoader_load program memory = StaticLoader_load_loop program memory memory"

text \<open>
  \<^verbatim>\<open>DynamicLoader.load\<close>: the loop over \<^verbatim>\<open>range(len(memory))\<close>; at the first
  index \<open>i\<close> holding 0 it assigns \<^verbatim>\<open>memory[i:i + len(program.instructions)]\<close>.
\<close>

fun DynamicLoader_load_loop ::
  "Program \<Rightarrow> bytearray \<Rightarrow> nat list \<Rightarrow> (error + unit) \<times> bytearray" where
  "DynamicLoader_load_loop program memory [] = (Inl MemoryFull, memory)"
| "DynamicLoader_load_loop program memory (i # rest) =
     (if memory ! i = 0
      then (Inr (), setslice memory i (i + length (Program_instructions program))
                      (Program_instructions program))
      else DynamicLoader_load_loop program memory rest)"

definition DynamicLoader_load :: "Program \<Rightarrow> bytearray \<Rightarrow> (error + unit) \<times> bytearray" where
  "DynamicLoader_load program memory =
     DynamicLoader_load_loop program memory [0..<length memory]"

text \<open>The two strategies that \<^verbatim>\<open>Memory.add\<close> dispatches to.\<close>

datatype Loader = StaticLoader | DynamicLoader

fun load :: "Loader \<Rightarrow> Program \<Rightarrow> bytearray \<Rightarrow> (error + unit) \<times> bytearray" where
  "load StaticLoader program memory = StaticLoader_load program memory"
| "load DynamicLoader program memory = DynamicLoader_load program memory"

section \<open>Memory\<close>

text \<open>
  Bytearrays are objects: a slice is a new object, an item or slice assignment changes
  the object in place, and \<^verbatim>\<open>reset\<close> binds the attribute to a new object. The store
  holds the bytearray objects and the \<^verbatim>\<open>Memory\<close> instances, a reference being the
  index of the object, and the one list that the class body of \<^verbatim>\<open>Memory\<close> binds to
  \<^verbatim>\<open>partitions\<close>, together with the largest count the allocator grants to a new
  bytearray. No method assigns \<^verbatim>\<open>self.partitions\<close>, so the attribute is
  never found on an instance and every lookup yields that list of the class.
\<close>

record partition_rec =
  part_start :: int
  part_end :: int
  part_data :: nat

record Memory =
  Memory_size :: int
  Memory_memory :: nat

record world =
  bytearrays :: "bytearray list"
  Memory_objs :: "Memory list"
  Memory_partitions :: "partition_rec list"
  heap_limit :: int

text \<open>
  The store once the module is loaded, on a machine whose allocator grants \<open>limit\<close>
  bytes: \<^verbatim>\<open>partitions = []\<close>, no instance yet.
\<close>

definition world0 :: "int \<Rightarrow> world" where
  "world0 limit =
     \<lparr>bytearrays = [], Memory_objs = [], Memory_partitions = [], heap_limit = limit\<rparr>"

definition buffer :: "world \<Rightarrow> nat \<Rightarrow> bytearray" where
  "buffer w self = bytearrays w ! Memory_memory (Memory_objs w ! self)"

text \<open>The lookup \<^verbatim>\<open>self.partitions\<close>.\<close>

definition get_partitions :: "world \<Rightarrow> nat \<Rightarrow> partition_rec list" where
  "get_partitions w self = Memory_partitions w"

definition Memory_init :: "world \<Rightarrow> int \<Rightarrow> (error + nat) \<times> world" where
  "Memory_init w sz =
     (case bytearray_of_count (heap_limit w) sz of
        Inl e \<Rightarrow> (Inl e, w)
      | Inr memory \<Rightarrow>
          (Inr (length (Memory_objs w)),
           w\<lparr>bytearrays := bytearrays w @ [memory],
             Memory_objs := Memory_objs w @
               [\<lparr>Memory_size = sz, Memory_memory = length (bytearrays w)\<rparr>]\<rparr>))"

definition Memory_reset :: "world \<Rightarrow> nat \<Rightarrow> (error + unit) \<times> world" where
  "Memory_reset w self =
     (let m = Memory_objs w ! self in
      case bytearray_of_count (heap_limit w) (Memory_size m) of
        Inl e \<Rightarrow> (Inl e, w)
      | Inr memory \<Rightarrow>
          (Inr (),
           w\<lparr>bytearrays := bytearrays w @ [memory],
             Memory_objs := (Memory_objs w)[self := m\<lparr>Memory_memory := length (bytearrays w)\<rparr>]\<rparr>))"

definition Memory_add :: "world \<Rightarrow> nat \<Rightarrow> Program \<Rightarrow> Loader \<Rightarrow> (error + unit) \<times> world" where
  "Memory_add w self program loader =
     (let a = Memory_memory (Memory_objs w ! self) in
      case load loader program (bytearrays w ! a) of
        (r, memory') \<Rightarrow> (r, w\<lparr>bytearrays := (bytearrays w)[a := memory']\<rparr>))"

definition Memory_read :: "world \<Rightarrow> nat \<Rightarrow> int \<Rightarrow> (error + byte) \<times> world" where
  "Memory_read w self address =
     (if 0 \<le> address \<and> address < Memory_size (Memory_objs w ! self) then
        (if nat address < length (buffer w self)
         then (Inr (buffer w self ! nat address), w)
         else (Inl index_out_of_range, w))
      else (Inl OutOfBounds, w))"

definition Memory_write :: "world \<Rightarrow> nat \<Rightarrow> int \<Rightarrow> int \<Rightarrow> (error + unit) \<times> world" where
  "Memory_write w self address val =
     (let a = Memory_memory (Memory_objs w ! self) in
      if 0 \<le> address \<and> address < Memory_size (Memory_objs w ! self) then
        (if 0 \<le> val \<and> val < 256 then
           (if nat address < length (bytearrays w ! a)
            then (Inr (),
                  w\<lparr>bytearrays :=
                      (bytearrays w)[a := (bytearrays w ! a)[nat address := word_of_int val]]\<rparr>)
            else (Inl index_out_of_range, w))
         else (Inl InvalidByteValue, w))
      else (Inl OutOfBounds, w))"

definition Memory_partition :: "world \<Rightarrow> nat \<Rightarrow> int \<Rightarrow> int \<Rightarrow> (error + unit) \<times> world" where
  "Memory_partition w self start stop =
     (if 0 \<le> start \<and> start < stop \<and> stop \<le> Memory_size (Memory_objs w ! self) then
        (Inr (),
         w\<lparr>bytearrays := bytearrays w @ [getslice (buffer w self) (nat start) (nat stop)],
           Memory_partitions := get_partitions w self @
             [\<lparr>part_start = start, part_end = stop, part_data = length (bytearrays w)\<rparr>]\<rparr>)
      else (Inl PartitionOutOfBounds, w))"

text \<open>
  References in a store are references to objects that exist; \<open>self\<close> is an instance
  of \<^verbatim>\<open>Memory\<close> in it.
\<close>

definition world_ok :: "world \<Rightarrow> bool" where
  "world_ok w \<longleftrightarrow>
     (\<forall>m\<in>set (Memory_objs w). Memory_memory m < length (bytearrays w)) \<and>
     (\<forall>p\<in>set (Memory_partitions w). part_data p < length (bytearrays w))"

definition is_Memory :: "world \<Rightarrow> nat \<Rightarrow> bool" where
  "is_Memory w self \<longleftrightarrow> self < length (Memory_objs w)"

text \<open>The invariant of the data model: the buffer is as long as \<open>size\<close> says.\<close>

definition Memory_ok :: "world \<Rightarrow> nat \<Rightarrow> bool" where
  "Memory_ok w self \<longleftrightarrow> int (length (buffer w self)) = Memory_size (Memory_objs w ! self)"

text \<open>Writes and resets of one instance, in sequence, whatever their outcomes.\<close>

datatype Memory_op = Write int int | Reset

fun apply_op :: "nat \<Rightarrow> world \<Rightarrow> Memory_op \<Rightarrow> world" where
  "apply_op self w (Write address val) = snd (Memory_write w self address val)"
| "apply_op self w Reset = snd (Memory_reset w self)"

definition apply_ops :: "world \<Rightarrow> nat \<Rightarrow> Memory_op list \<Rightarrow> world" where
  "apply_ops w self ops = foldl (apply_op self) w ops"

section \<open>Pagination\<close>

text \<open>
  \<^verbatim>\<open>range(start, stop, step)\<close> as the list of its elements. A step of 0 raises in
  Python; \<^verbatim>\<open>Pagination.__init__\<close> never asks for it, the division raising first.
\<close>

definition py_range :: "int \<Rightarrow> int \<Rightarrow> int \<Rightarrow> int list" where
  "py_range start stop step =
     (if 0 < step
      then map (\<lambda>k. start + int k * step) [0..<nat ((stop - start + step - 1) div step)]
      else if step < 0
      then map (\<lambda>k. start + int k * step) [0..<nat ((start - stop - step - 1) div (- step))]
      else [])"

datatype py_none = PyNone

record Pagination =
  Pagination_size :: int
  Pagination_memory :: nat
  Pagination_page_size :: int
  Pagination_pages :: "(int \<times> py_none) list"

text \<open>
  The loop of \<^verbatim>\<open>Pagination.__init__\<close>: one call of \<^verbatim>\<open>memory.partition\<close> per
  stride; an exception of the call ends the loop and leaves what was registered before.
\<close>

fun Pagination_init_loop ::
  "world \<Rightarrow> nat \<Rightarrow> int \<Rightarrow> int list \<Rightarrow> (error + unit) \<times> world" where
  "Pagination_init_loop w memory page_size [] = (Inr (), w)"
| "Pagination_init_loop w memory page_size (i # rest) =
     (case Memory_partition w memory i (min (i + page_size) (Memory_size (Memory_objs w ! memory))) of
        (Inl e, w') \<Rightarrow> (Inl e, w')
      | (Inr u, w') \<Rightarrow> Pagination_init_loop w' memory page_size rest)"

definition Pagination_init :: "world \<Rightarrow> nat \<Rightarrow> int \<Rightarrow> (error + Pagination) \<times> world" where
  "Pagination_init w memory sz =
     (if sz = 0 then (Inl ZeroDivisionError, w)
      else
        let msize = Memory_size (Memory_objs w ! memory);
            page_size = msize div sz;
            pages = map (\<lambda>i. (i, PyNone)) (py_range 0 page_size 1)
        in case Pagination_init_loop w memory page_size (py_range 0 msize sz) of
             (Inl e, w') \<Rightarrow> (Inl e, w')
           | (Inr u, w') \<Rightarrow>
               (Inr \<lparr>Pagination_size = sz, Pagination_memory = memory,
                     Pagination_page_size = page_size, Pagination_pages = pages\<rparr>, w'))"

section \<open>Properties of Program\<close>

lemma upt_split_at: "i < n \<Longrightarrow> [0..<n] = [0..<i] @ i # [Suc i..<n]"
  by (metis le_add2 le_add_same_cancel2 less_imp_le_nat upt_add_eq_append upt_conv_Cons le_add_diff_inverse)

lemma add_instruction_loop_skip:
  "\<forall>j\<in>set js. j < length (Program_instructions p) \<and> Program_instructions p ! j \<noteq> 0 \<Longrightarrow>
   add_instruction_loop p v (js @ ks) = add_instruction_loop p v ks"
  by (induction js) auto

lemma lowest_zero_exists:
  assumes "0 \<in> set xs"
  shows "\<exists>i. lowest_zero xs i"
proof -
  from assms obtain k where k: "k < length xs" "xs ! k = 0"
    by (auto simp: in_set_conv_nth)
  define i where "i = (LEAST n. n < length xs \<and> xs ! n = 0)"
  have "i < length xs \<and> xs ! i = 0"
    unfolding i_def by (rule LeastI [of _ k]) (simp add: k)
  moreover have "xs ! j \<noteq> 0" if "j < i" for j
  proof
    assume "xs ! j = 0"
    with that calculation have "j < length xs \<and> xs ! j = 0" by simp
    then have "i \<le> j" unfolding i_def by (rule Least_le)
    with that show False by simp
  qed
  ultimately show ?thesis by (auto simp: lowest_zero_def)
qed

lemma lowest_zero_unique: "lowest_zero xs i \<Longrightarrow> lowest_zero xs j \<Longrightarrow> i = j"
  by (metis lowest_zero_def nat_neq_iff)

lemma add_instruction_at_lowest_zero:
  assumes ok: "Program_ok p" and lz: "lowest_zero (Program_instructions p) i"
  shows "add_instruction p v =
     (if 0 \<le> v \<and> v < 256
      then (Inr (int i), p\<lparr>Program_instructions := (Program_instructions p)[i := word_of_int v]\<rparr>)
      else (Inl byte_out_of_range, p))"
proof -
  let ?xs = "Program_instructions p"
  from lz have i: "i < length ?xs" "?xs ! i = 0" and below: "\<forall>j<i. ?xs ! j \<noteq> 0"
    by (simp_all add: lowest_zero_def)
  from ok have n: "nat (Program_size p) = length ?xs"
    by (simp add: Program_ok_def)
  have "add_instruction p v = add_instruction_loop p v (i # [Suc i..<length ?xs])"
    unfolding add_instruction_def n upt_split_at [OF i(1)]
    using i below by (intro add_instruction_loop_skip) auto
  with i show ?thesis by simp
qed

lemma add_instruction_full:
  assumes ok: "Program_ok p" and full: "0 \<notin> set (Program_instructions p)"
  shows "add_instruction p v = (Inl OutOfCapacity, p)"
proof -
  let ?xs = "Program_instructions p"
  from ok have n: "nat (Program_size p) = length ?xs"
    by (simp add: Program_ok_def)
  have "add_instruction_loop p v ([0..<length ?xs] @ []) = add_instruction_loop p v []"
    using full by (intro add_instruction_loop_skip) (auto simp: in_set_conv_nth)
  then show ?thesis by (simp add: add_instruction_def n)
qed

lemma count_list_update_zero:
  "i < length xs \<Longrightarrow> xs ! i = (0::byte) \<Longrightarrow> b \<noteq> 0 \<Longrightarrow>
   Suc (count_list (xs[i := b]) 0) = count_list xs 0"
  by (induction xs arbitrary: i) (auto split: nat.splits simp: nth_Cons')

lemma byte_of_int_nonzero: "0 < v \<Longrightarrow> v < 256 \<Longrightarrow> (word_of_int v :: byte) \<noteq> 0"
  by (auto simp: word_of_int_eq_0_iff dest: zdvd_imp_le)

lemma bytearray_of_count_Inr:
  "bytearray_of_count limit n = Inr b \<Longrightarrow> 0 \<le> n \<and> b = replicate (nat n) 0"
  by (auto simp: bytearray_of_count_def split: if_splits)

lemma Program_init_ok: "Program_init limit n = Inr p \<Longrightarrow> Program_ok p"
  by (auto simp: Program_init_def Program_ok_def split: sum.splits
      dest!: bytearray_of_count_Inr)

lemma add_instruction_nonzero_cases:
  assumes ok: "Program_ok p" and v: "0 < v" "v < 256"
  shows "(free_slots p = 0 \<and> add_instruction p v = (Inl OutOfCapacity, p)) \<or>
         (\<exists>i q. lowest_zero (Program_instructions p) i \<and>
            q = p\<lparr>Program_instructions := (Program_instructions p)[i := word_of_int v]\<rparr> \<and>
            add_instruction p v = (Inr (int i), q) \<and> Program_ok q \<and>
            Suc (free_slots q) = free_slots p)"
proof (cases "0 \<in> set (Program_instructions p)")
  case False
  with ok show ?thesis
    by (simp add: add_instruction_full free_slots_def)
next
  case True
  then obtain i where i: "lowest_zero (Program_instructions p) i"
    using lowest_zero_exists by blast
  let ?q = "p\<lparr>Program_instructions := (Program_instructions p)[i := word_of_int v]\<rparr>"
  from ok i v have "add_instruction p v = (Inr (int i), ?q)"
    by (simp add: add_instruction_at_lowest_zero)
  moreover from ok have "Program_ok ?q"
    by (simp add: Program_ok_def)
  moreover from i v have "Suc (free_slots ?q) = free_slots p"
    by (simp add: free_slots_def lowest_zero_def count_list_update_zero byte_of_int_nonzero)
  ultimately show ?thesis using i by blast
qed

lemma add_instructions_snoc:
  "snd (add_instructions p (vs @ [v])) = snd (add_instruction (snd (add_instructions p vs)) v)"
  by (induction vs arbitrary: p) (simp_all add: case_prod_beta)

lemma add_instructions_nth:
  "j < length vs \<Longrightarrow>
   fst (add_instructions p vs) ! j =
     fst (add_instruction (snd (add_instructions p (take j vs))) (vs ! j))"
proof (induction vs arbitrary: p j)
  case Nil
  then show ?case by simp
next
  case (Cons v vs)
  show ?case
  proof (cases j)
    case 0
    then show ?thesis by (simp add: case_prod_beta)
  next
    case (Suc k)
    with Cons.prems have "k < length vs" by simp
    from Cons.IH [OF this] Suc show ?thesis
      by (simp add: case_prod_beta)
  qed
qed

lemma add_instructions_state:
  assumes "Program_ok p" and "\<forall>v\<in>set vs. 0 < v \<and> v < 256"
  shows "Program_ok (snd (add_instructions p vs)) \<and>
         free_slots (snd (add_instructions p vs)) = free_slots p - length vs"
  using assms
proof (induction vs rule: rev_induct)
  case Nil
  then show ?case by simp
next
  case (snoc v vs)
  let ?q = "snd (add_instructions p vs)"
  from snoc have q: "Program_ok ?q" "free_slots ?q = free_slots p - length vs"
    by simp_all
  from snoc.prems have v: "0 < v" "v < 256" by simp_all
  from add_instruction_nonzero_cases [OF q(1) v]
  show ?case
  proof
    assume "free_slots ?q = 0 \<and> add_instruction ?q v = (Inl OutOfCapacity, ?q)"
    with q show ?thesis by (simp add: add_instructions_snoc)
  next
    assume "\<exists>i q'. lowest_zero (Program_instructions ?q) i \<and>
            q' = ?q\<lparr>Program_instructions := (Program_instructions ?q)[i := word_of_int v]\<rparr> \<and>
            add_instruction ?q v = (Inr (int i), q') \<and> Program_ok q' \<and>
            Suc (free_slots q') = free_slots ?q"
    then obtain i q' where "add_instruction ?q v = (Inr (int i), q')" "Program_ok q'"
      "Suc (free_slots q') = free_slots ?q" by blast
    with q show ?thesis by (simp add: add_instructions_snoc)
  qed
qed

text \<open>
  Claim C6. On a program with \<open>k\<close> slots holding 0, successive calls of
  \<^verbatim>\<open>add_instruction\<close> with non-zero byte values succeed exactly \<open>k\<close> times: call
  number \<open>j\<close> (from 0), made on the program \<open>q\<close> that the calls before it left, returns
  the lowest index of \<open>q\<close> holding 0 and writes its value there when \<open>j < k\<close>, and raises
  the \<^verbatim>\<open>MemoryError\<close> of a full program, changing nothing, from call number \<open>k\<close> on.
\<close>

theorem add_instruction_k_times:
  assumes "Program_ok p" and "\<forall>v\<in>set vs. 0 < v \<and> v < 256" and "j < length vs"
  defines "q \<equiv> snd (add_instructions p (take j vs))"
  shows "fst (add_instructions p vs) ! j = fst (add_instruction q (vs ! j)) \<and>
         (j < free_slots p \<longrightarrow>
            (\<exists>i. lowest_zero (Program_instructions q) i \<and>
               add_instruction q (vs ! j) =
                 (Inr (int i),
                  q\<lparr>Program_instructions := (Program_instructions q)[i := word_of_int (vs ! j)]\<rparr>))) \<and>
         (free_slots p \<le> j \<longrightarrow> add_instruction q (vs ! j) = (Inl OutOfCapacity, q))"
proof -
  from assms(2) have "\<forall>v\<in>set (take j vs). 0 < v \<and> v < 256"
    by (auto dest: in_set_takeD)
  from add_instructions_state [OF assms(1) this] assms(3)
  have q: "Program_ok q" "free_slots q = free_slots p - j"
    by (simp_all add: q_def min_def)
  from assms(2,3) have v: "0 < vs ! j" "vs ! j < 256" by simp_all
  have "fst (add_instructions p vs) ! j = fst (add_instruction q (vs ! j))"
    unfolding q_def using assms(3) by (rule add_instructions_nth)
  moreover from add_instruction_nonzero_cases [OF q(1) v] q(2)
  have "j < free_slots p \<longrightarrow>
            (\<exists>i. lowest_zero (Program_instructions q) i \<and>
               add_instruction q (vs ! j) =
                 (Inr (int i),
                  q\<lparr>Program_instructions := (Program_instructions q)[i := word_of_int (vs ! j)]\<rparr>))"
    by auto
  moreover from add_instruction_nonzero_cases [OF q(1) v] q(2)
  have "free_slots p \<le> j \<longrightarrow> add_instruction q (vs ! j) = (Inl OutOfCapacity, q)"
    by auto
  ultimately show ?thesis by blast
qed

text \<open>
  Claim C10. On a program that has a slot holding 0, \<^verbatim>\<open>add_instruction(0)\<close> succeeds,
  returns the lowest index holding 0 and leaves the program as it was; hence any number
  of such calls in sequence return that same index and none of them raises.
\<close>

theorem add_instruction_zero:
  assumes "Program_ok p" and "0 \<in> set (Program_instructions p)"
  shows "\<exists>i. lowest_zero (Program_instructions p) i \<and>
           add_instruction p 0 = (Inr (int i), p) \<and>
           add_instructions p (replicate n 0) = (replicate n (Inr (int i)), p)"
proof -
  from assms(2) obtain i where i: "lowest_zero (Program_instructions p) i"
    using lowest_zero_exists by blast
  then have "(Program_instructions p)[i := word_of_int 0] = Program_instructions p"
    by (simp add: lowest_zero_def list_update_same_conv)
  with add_instruction_at_lowest_zero [OF assms(1) i, of 0]
  have one: "add_instruction p 0 = (Inr (int i), p)" by simp
  have "add_instructions p (replicate n 0) = (replicate n (Inr (int i)), p)"
    by (induction n) (simp_all add: one)
  with i one show ?thesis by blast
qed

text \<open>
  Claim C9, as amended. \<^verbatim>\<open>Program(n)\<close> fails for every \<open>n < 0\<close>, with the exception
  that \<^verbatim>\<open>bytearray(n)\<close> raises: \<^verbatim>\<open>ValueError\<close> from \<open>-2^63\<close> on and
  \<^verbatim>\<open>OverflowError\<close> below. It succeeds for \<open>n = 0\<close>, and for every \<open>n > 0\<close> that the
  allocator grants (\<open>n \<le> limit\<close> and \<open>n < 2^63 - 1\<close>), and then yields an instruction
  buffer of length \<open>n\<close> with every slot equal to 0. For the other \<open>n > 0\<close> it fails, with
  \<^verbatim>\<open>MemoryError\<close> below \<open>2^63\<close> and \<^verbatim>\<open>OverflowError\<close> from there on.
\<close>

theorem Program_init_capacity:
  "(n < - (2 ^ 63) \<longrightarrow> Program_init limit n = Inl OverflowError) \<and>
   (- (2 ^ 63) \<le> n \<and> n < 0 \<longrightarrow> Program_init limit n = Inl negative_count) \<and>
   (n = 0 \<or> 0 < n \<and> n \<le> limit \<and> n < 2 ^ 63 - 1 \<longrightarrow>
      (\<exists>p. Program_init limit n = Inr p \<and> Program_size p = n \<and>
         length (Program_instructions p) = nat n \<and>
         (\<forall>b\<in>set (Program_instructions p). b = 0))) \<and>
   (0 < n \<and> (limit < n \<or> 2 ^ 63 - 1 \<le> n) \<and> n < 2 ^ 63 \<longrightarrow>
      Program_init limit n = Inl no_memory) \<and>
   (2 ^ 63 \<le> n \<longrightarrow> Program_init limit n = Inl OverflowError)"
  by (auto simp: Program_init_def bytearray_of_count_def)

text \<open>
  Claim C9 as stated fails at capacity 0: the constructor does not raise there, it
  yields the program with the empty buffer.
\<close>

theorem Program_init_zero_succeeds:
  "Program_init 4096 0 = Inr \<lparr>Program_size = 0, Program_instructions = []\<rparr>"
  by (simp add: Program_init_def bytearray_of_count_def)

text \<open>
  The program \<open>[5, 0, 0]\<close> has two free slots: after the calls with 1 and 2 it is
  \<open>[5, 1, 2]\<close>, and the third call raises.
\<close>

theorem add_instruction_k_times_witness:
  "Program_ok \<lparr>Program_size = 3, Program_instructions = [5, 0, 0]\<rparr> \<and>
   list_all (\<lambda>v. 0 < v \<and> v < 256) [1, 2, 3 :: int] \<and> 2 < length [1, 2, 3 :: int] \<and>
   free_slots \<lparr>Program_size = 3, Program_instructions = [5, 0, 0]\<rparr> = 2 \<and>
   snd (add_instructions \<lparr>Program_size = 3, Program_instructions = [5, 0, 0]\<rparr> (take 2 [1, 2, 3]))
     = \<lparr>Program_size = 3, Program_instructions = [5, 1, 2]\<rparr> \<and>
   fst (add_instructions \<lparr>Program_size = 3, Program_instructions = [5, 0, 0]\<rparr> [1, 2, 3]) ! 2
     = Inl OutOfCapacity"
proof -
  let ?p = "\<lparr>Program_size = 3, Program_instructions = [5, 0, 0]\<rparr>"
  have ok: "Program_ok ?p" by (simp add: Program_ok_def)
  have vs: "\<forall>v\<in>set [1, 2, 3 :: int]. 0 < v \<and> v < 256" by simp
  have j: "2 < length [1, 2, 3 :: int]" by simp
  have k: "free_slots ?p = 2" by (simp add: free_slots_def)
  have q: "snd (add_instructions ?p (take 2 [1, 2, 3]))
     = \<lparr>Program_size = 3, Program_instructions = [5, 1, 2]\<rparr>"
    by code_simp
  from add_instruction_k_times [OF ok vs j] k q show ?thesis
    using ok vs j by simp
qed

text \<open>
  Four calls with 0 on the program \<open>[5, 0, 0]\<close> all return index 1.
\<close>

theorem add_instruction_zero_witness:
  "Program_ok \<lparr>Program_size = 3, Program_instructions = [5, 0, 0]\<rparr> \<and>
   0 \<in> set (Program_instructions \<lparr>Program_size = 3, Program_instructions = [5, 0, 0]\<rparr>) \<and>
   add_instructions \<lparr>Program_size = 3, Program_instructions = [5, 0, 0]\<rparr> (replicate 4 0) =
     (replicate 4 (Inr 1), \<lparr>Program_size = 3, Program_instructions = [5, 0, 0]\<rparr>)"
proof -
  let ?p = "\<lparr>Program_size = 3, Program_instructions = [5, 0, 0]\<rparr>"
  have ok: "Program_ok ?p" by (simp add: Program_ok_def)
  have z: "0 \<in> set (Program_instructions ?p)" by simp
  have lz: "lowest_zero [5, 0, 0 :: byte] i \<longleftrightarrow> i = 1" for i
    by (auto simp: lowest_zero_def nth_Cons' less_Suc_eq)
  from add_instruction_zero [OF ok z, of 4] show ?thesis
    using ok z by (auto simp: lz)
qed

text \<open>
  With an allocator that grants 4096 bytes: capacity \<open>-1\<close> fails, capacity 2 gives the
  buffer \<open>[0, 0]\<close>, capacity 5000 is refused, and \<open>2^63\<close> does not fit an index.
\<close>

theorem Program_init_capacity_witness:
  "Program_init 4096 (-1) = Inl negative_count \<and>
   Program_init 4096 2 = Inr \<lparr>Program_size = 2, Program_instructions = [0, 0]\<rparr> \<and>
   Program_init 4096 5000 = Inl no_memory \<and>
   Program_init 4096 (2 ^ 63) = Inl OverflowError \<and>
   Program_init 4096 (- (2 ^ 63) - 1) = Inl OverflowError"
  using Program_init_capacity [of "-1" 4096] Program_init_capacity [of 2 4096]
    Program_init_capacity [of 5000 4096] Program_init_capacity [of "2 ^ 63" 4096]
    Program_init_capacity [of "- (2 ^ 63) - 1" 4096]
  by (auto simp: Program_init_def bytearray_of_count_def numeral_2_eq_2)

section \<open>Properties of the loaders\<close>

lemma StaticLoader_load_loop_eq:
  "StaticLoader_load_loop p memory bs =
     (if 0 \<in> set bs
      then (Inr (), setslice memory 0 (length (Program_instructions p)) (Program_instructions p))
      else (Inl MemoryFull, memory))"
  by (induction bs) auto

lemma StaticLoader_load_eq:
  "StaticLoader_load p memory =
     (if 0 \<in> set memory
      then (Inr (), Program_instructions p @ drop (length (Program_instructions p)) memory)
      else (Inl MemoryFull, memory))"
  by (simp add: StaticLoader_load_def StaticLoader_load_loop_eq setslice_def)

lemma DynamicLoader_load_loop_skip:
  "\<forall>j\<in>set js. memory ! j \<noteq> 0 \<Longrightarrow>
   DynamicLoader_load_loop p memory (js @ ks) = DynamicLoader_load_loop p memory ks"
  by (induction js) auto

lemma DynamicLoader_load_at_lowest_zero:
  assumes "lowest_zero memory i"
  shows "DynamicLoader_load p memory =
     (Inr (), take i memory @ Program_instructions p @
                drop (i + length (Program_instructions p)) memory)"
proof -
  from assms have i: "i < length memory" "memory ! i = 0" and below: "\<forall>j<i. memory ! j \<noteq> 0"
    by (simp_all add: lowest_zero_def)
  have "DynamicLoader_load p memory =
          DynamicLoader_load_loop p memory (i # [Suc i..<length memory])"
    unfolding DynamicLoader_load_def upt_split_at [OF i(1)]
    using below by (intro DynamicLoader_load_loop_skip) auto
  with i show ?thesis by (simp add: setslice_def)
qed

lemma DynamicLoader_load_full:
  assumes "0 \<notin> set memory"
  shows "DynamicLoader_load p memory = (Inl MemoryFull, memory)"
proof -
  have "DynamicLoader_load_loop p memory ([0..<length memory] @ []) =
          DynamicLoader_load_loop p memory []"
    using assms by (intro DynamicLoader_load_loop_skip) (auto simp: in_set_conv_nth)
  then show ?thesis by (simp add: DynamicLoader_load_def)
qed

text \<open>
  A program with no instructions leaves the buffer as it is, whether the load returns
  (the buffer has a zero byte) or raises (it has none).
\<close>

lemma load_empty_program:
  assumes "Program_instructions p = []"
  shows "snd (load l p memory) = memory"
proof (cases l)
  case StaticLoader
  with assms show ?thesis by (simp add: StaticLoader_load_eq)
next
  case DynamicLoader
  show ?thesis
  proof (cases "0 \<in> set memory")
    case True
    then obtain i where "lowest_zero memory i" using lowest_zero_exists by blast
    with assms DynamicLoader show ?thesis
      by (simp add: DynamicLoader_load_at_lowest_zero)
  next
    case False
    with DynamicLoader show ?thesis by (simp add: DynamicLoader_load_full)
  qed
qed

text \<open>
  Claim C5. For a program whose instructions are no longer than the target buffer:
  if some byte of the buffer is 0, \<^verbatim>\<open>StaticLoader.load\<close> succeeds and the buffer then
  holds all the instructions from address 0 on, followed by its old bytes beyond them,
  wherever the zero byte was; if no byte is 0, it raises the \<^verbatim>\<open>MemoryError\<close> of a full
  memory and the buffer is as before. Loading \<open>[1, 2, 3]\<close> into eight zero bytes gives
  \<open>[1, 2, 3, 0, 0, 0, 0, 0]\<close>.
\<close>

theorem StaticLoader_load_copies_to_start:
  assumes "length (Program_instructions p) \<le> length memory"
  shows "(0 \<in> set memory \<longrightarrow>
            StaticLoader_load p memory =
              (Inr (), Program_instructions p @ drop (length (Program_instructions p)) memory) \<and>
            length (snd (StaticLoader_load p memory)) = length memory) \<and>
         (0 \<notin> set memory \<longrightarrow> StaticLoader_load p memory = (Inl MemoryFull, memory)) \<and>
         StaticLoader_load \<lparr>Program_size = 3, Program_instructions = [1, 2, 3]\<rparr> (replicate 8 0) =
           (Inr (), [1, 2, 3, 0, 0, 0, 0, 0])"
proof -
  have "replicate 8 (0::byte) = [0, 0, 0, 0, 0, 0, 0, 0]"
    by (simp add: numeral_eq_Suc)
  with assms show ?thesis by (simp add: StaticLoader_load_eq)
qed

text \<open>
  The only zero byte of \<open>[5, 6, 0, 9]\<close> is at address 2, and \<open>[7, 8]\<close> lands at
  address 0; \<open>[5, 6, 4, 9]\<close> has none.
\<close>

theorem StaticLoader_load_copies_to_start_witness:
  "length (Program_instructions \<lparr>Program_size = 2, Program_instructions = [7, 8]\<rparr>)
     \<le> length [5, 6, 0, 9 :: byte] \<and>
   StaticLoader_load \<lparr>Program_size = 2, Program_instructions = [7, 8]\<rparr> [5, 6, 0, 9] =
     (Inr (), [7, 8, 0, 9]) \<and>
   StaticLoader_load \<lparr>Program_size = 2, Program_instructions = [7, 8]\<rparr> [5, 6, 4, 9] =
     (Inl MemoryFull, [5, 6, 4, 9])"
  using StaticLoader_load_copies_to_start
          [of "\<lparr>Program_size = 2, Program_instructions = [7, 8]\<rparr>" "[5, 6, 0, 9]"]
        StaticLoader_load_copies_to_start
          [of "\<lparr>Program_size = 2, Program_instructions = [7, 8]\<rparr>" "[5, 6, 4, 9]"]
  by simp

text \<open>
  Claim C8. A buffer with a zero byte has a lowest address \<open>i\<close> holding 0, and
  \<^verbatim>\<open>DynamicLoader.load\<close> then succeeds, leaving the bytes below \<open>i\<close>, all the
  instructions of the program from \<open>i\<close> on, and the old bytes beyond them. This holds for
  every program, those that fit in the buffer included. If no byte of the buffer is 0,
  both loaders raise the \<^verbatim>\<open>MemoryError\<close> of a full memory and write nothing.
\<close>

theorem DynamicLoader_load_first_fit:
  "(0 \<in> set memory \<longrightarrow> (\<exists>i. lowest_zero memory i)) \<and>
   (lowest_zero memory i \<longrightarrow>
      DynamicLoader_load p memory =
        (Inr (), take i memory @ Program_instructions p @
                   drop (i + length (Program_instructions p)) memory)) \<and>
   (0 \<notin> set memory \<longrightarrow>
      DynamicLoader_load p memory = (Inl MemoryFull, memory) \<and>
      StaticLoader_load p memory = (Inl MemoryFull, memory))"
  by (simp add: lowest_zero_exists DynamicLoader_load_at_lowest_zero DynamicLoader_load_full
        StaticLoader_load_eq)

text \<open>
  The lowest zero byte of \<open>[9, 0, 0, 5]\<close> is at address 1, where \<open>[7, 8]\<close> is placed.
\<close>

theorem DynamicLoader_load_first_fit_witness:
  "lowest_zero [9, 0, 0, 5] 1 \<and>
   DynamicLoader_load \<lparr>Program_size = 2, Program_instructions = [7, 8]\<rparr> [9, 0, 0, 5] =
     (Inr (), [9, 7, 8, 5]) \<and>
   DynamicLoader_load \<lparr>Program_size = 2, Program_instructions = [7, 8]\<rparr> [5, 6, 4, 9] =
     (Inl MemoryFull, [5, 6, 4, 9]) \<and>
   StaticLoader_load \<lparr>Program_size = 2, Program_instructions = [7, 8]\<rparr> [5, 6, 4, 9] =
     (Inl MemoryFull, [5, 6, 4, 9])"
proof -
  have lz: "lowest_zero [9, 0, 0, 5] 1"
    by (simp add: lowest_zero_def)
  from lz DynamicLoader_load_first_fit
          [of "[9, 0, 0, 5]" 1 "\<lparr>Program_size = 2, Program_instructions = [7, 8]\<rparr>"]
       DynamicLoader_load_first_fit
          [of "[5, 6, 4, 9]" 0 "\<lparr>Program_size = 2, Program_instructions = [7, 8]\<rparr>"]
  show ?thesis by simp
qed

text \<open>
  Claim C1 does not hold of the code. A program of three instructions is loaded into a
  buffer of two bytes without any exception: the slice assignment makes the bytearray
  longer, to three bytes with \<^verbatim>\<open>StaticLoader\<close>, and to four with
  \<^verbatim>\<open>DynamicLoader\<close> when the first zero byte is at address 1.
\<close>

theorem load_past_the_end_extends_the_buffer:
  "StaticLoader_load \<lparr>Program_size = 3, Program_instructions = [1, 2, 3]\<rparr> [0, 0] =
     (Inr (), [1, 2, 3]) \<and>
   DynamicLoader_load \<lparr>Program_size = 3, Program_instructions = [1, 2, 3]\<rparr> [9, 0] =
     (Inr (), [9, 1, 2, 3])"
  by (simp add: StaticLoader_load_def DynamicLoader_load_def setslice_def)

section \<open>Properties of Memory and Pagination\<close>

lemma world_ok_buffer_ref:
  "world_ok w \<Longrightarrow> is_Memory w self \<Longrightarrow>
   Memory_memory (Memory_objs w ! self) < length (bytearrays w)"
  by (simp add: world_ok_def is_Memory_def)

lemma world_ok_world0: "world_ok (world0 limit)"
  by (simp add: world_ok_def world0_def)

text \<open>
  A write or a reset of an instance touches only the buffer the instance is bound to,
  or binds it to a new one: any other bytearray object of the store keeps its contents,
  and the list of partition records is not touched.
\<close>

lemma Memory_write_frame:
  fixes address val :: int
  assumes "world_ok w" and "is_Memory w self"
    and "d < length (bytearrays w)" and "d \<noteq> Memory_memory (Memory_objs w ! self)"
  defines "w' \<equiv> snd (Memory_write w self address val)"
  shows "world_ok w' \<and> is_Memory w' self \<and> d < length (bytearrays w') \<and>
         d \<noteq> Memory_memory (Memory_objs w' ! self) \<and>
         bytearrays w' ! d = bytearrays w ! d \<and> Memory_partitions w' = Memory_partitions w"
  using assms(1-4) unfolding w'_def
  by (simp add: Memory_write_def Let_def world_ok_def is_Memory_def)

lemma Memory_reset_frame:
  assumes "world_ok w" and "is_Memory w self"
    and "d < length (bytearrays w)" and "d \<noteq> Memory_memory (Memory_objs w ! self)"
  defines "w' \<equiv> snd (Memory_reset w self)"
  shows "world_ok w' \<and> is_Memory w' self \<and> d < length (bytearrays w') \<and>
         d \<noteq> Memory_memory (Memory_objs w' ! self) \<and>
         bytearrays w' ! d = bytearrays w ! d \<and> Memory_partitions w' = Memory_partitions w"
proof (cases "bytearray_of_count (heap_limit w) (Memory_size (Memory_objs w ! self))")
  case (Inl e)
  with assms(1-4) show ?thesis
    by (simp add: w'_def Memory_reset_def Let_def)
next
  case (Inr zeros)
  let ?n = "length (bytearrays w)"
  let ?m = "(Memory_objs w ! self)\<lparr>Memory_memory := ?n\<rparr>"
  from Inr have w': "w' = w\<lparr>bytearrays := bytearrays w @ [zeros],
      Memory_objs := (Memory_objs w)[self := ?m]\<rparr>"
    by (simp add: w'_def Memory_reset_def Let_def)
  have "Memory_memory m < Suc ?n" if "m \<in> set ((Memory_objs w)[self := ?m])" for m
  proof -
    from that have "m = ?m \<or> m \<in> set (Memory_objs w)"
      using set_update_subset_insert [of "Memory_objs w" self ?m] by auto
    with assms(1) show ?thesis
      by (auto simp: world_ok_def less_Suc_eq)
  qed
  moreover from assms(1) have "\<forall>p\<in>set (Memory_partitions w). part_data p < Suc ?n"
    by (auto simp: world_ok_def less_Suc_eq)
  ultimately have "world_ok w'"
    by (simp add: w' world_ok_def)
  with assms(2-4) show ?thesis
    by (simp add: w' is_Memory_def nth_append)
qed

lemma apply_ops_frame:
  assumes "world_ok w" and "is_Memory w self"
    and "d < length (bytearrays w)" and "d \<noteq> Memory_memory (Memory_objs w ! self)"
  shows "bytearrays (apply_ops w self ops) ! d = bytearrays w ! d \<and>
         Memory_partitions (apply_ops w self ops) = Memory_partitions w"
  using assms
proof (induction ops arbitrary: w)
  case Nil
  then show ?case by (simp add: apply_ops_def)
next
  case (Cons x ops)
  let ?w = "apply_op self w x"
  have step: "world_ok ?w \<and> is_Memory ?w self \<and> d < length (bytearrays ?w) \<and>
         d \<noteq> Memory_memory (Memory_objs ?w ! self) \<and>
         bytearrays ?w ! d = bytearrays w ! d \<and> Memory_partitions ?w = Memory_partitions w"
  proof (cases x)
    case (Write address val)
    with Memory_write_frame [OF Cons.prems] show ?thesis by simp
  next
    case Reset
    with Memory_reset_frame [OF Cons.prems] show ?thesis by simp
  qed
  then have "bytearrays (apply_ops ?w self ops) ! d = bytearrays ?w ! d \<and>
         Memory_partitions (apply_ops ?w self ops) = Memory_partitions ?w"
    by (intro Cons.IH) simp_all
  with step show ?case by (simp add: apply_ops_def)
qed

text \<open>
  Claim C7. \<^verbatim>\<open>Memory.partition(start, stop)\<close> raises the \<^verbatim>\<open>IndexError\<close> of a bad
  range, changing nothing, exactly when \<open>start < 0\<close>, \<open>start \<ge> stop\<close> (equal bounds
  included) or \<open>stop > size\<close>. Otherwise it succeeds and appends exactly one record to
  the partitions, with the bounds given and with \<open>data\<close> a new bytearray holding the slice
  \<^verbatim>\<open>memory[start:stop]\<close> of the buffer at the time of the call; after any sequence of
  writes and resets of the instance, that bytearray still holds the same bytes and the
  records are the same.
\<close>

theorem Memory_partition_snapshot:
  assumes "world_ok w" and "is_Memory w self"
  shows "(start < 0 \<or> stop \<le> start \<or> Memory_size (Memory_objs w ! self) < stop \<longrightarrow>
            Memory_partition w self start stop = (Inl PartitionOutOfBounds, w)) \<and>
         (0 \<le> start \<and> start < stop \<and> stop \<le> Memory_size (Memory_objs w ! self) \<longrightarrow>
            (\<exists>d w'. Memory_partition w self start stop = (Inr (), w') \<and>
               get_partitions w' self = get_partitions w self @
                 [\<lparr>part_start = start, part_end = stop, part_data = d\<rparr>] \<and>
               bytearrays w' ! d = getslice (buffer w self) (nat start) (nat stop) \<and>
               (\<forall>ops. bytearrays (apply_ops w' self ops) ! d =
                         getslice (buffer w self) (nat start) (nat stop) \<and>
                      get_partitions (apply_ops w' self ops) self = get_partitions w' self)))"
proof (intro conjI impI)
  assume "start < 0 \<or> stop \<le> start \<or> Memory_size (Memory_objs w ! self) < stop"
  then show "Memory_partition w self start stop = (Inl PartitionOutOfBounds, w)"
    by (auto simp: Memory_partition_def)
next
  assume valid: "0 \<le> start \<and> start < stop \<and> stop \<le> Memory_size (Memory_objs w ! self)"
  let ?d = "length (bytearrays w)"
  let ?data = "getslice (buffer w self) (nat start) (nat stop)"
  let ?w' = "w\<lparr>bytearrays := bytearrays w @ [?data],
      Memory_partitions := get_partitions w self @
        [\<lparr>part_start = start, part_end = stop, part_data = ?d\<rparr>]\<rparr>"
  from valid have run: "Memory_partition w self start stop = (Inr (), ?w')"
    by (simp add: Memory_partition_def)
  have parts: "get_partitions ?w' self = get_partitions w self @
      [\<lparr>part_start = start, part_end = stop, part_data = ?d\<rparr>]"
    by (simp add: get_partitions_def)
  have data: "bytearrays ?w' ! ?d = ?data"
    by simp
  from assms(1) have ok': "world_ok ?w'"
    by (auto simp: world_ok_def get_partitions_def less_Suc_eq)
  from assms(2) have mem': "is_Memory ?w' self"
    by (simp add: is_Memory_def)
  have d: "?d < length (bytearrays ?w')"
    by simp
  from world_ok_buffer_ref [OF assms] have fresh: "?d \<noteq> Memory_memory (Memory_objs ?w' ! self)"
    by simp
  have "bytearrays (apply_ops ?w' self ops) ! ?d = ?data \<and>
        get_partitions (apply_ops ?w' self ops) self = get_partitions ?w' self" for ops
    using apply_ops_frame [OF ok' mem' d fresh, of ops] data
    by (simp add: get_partitions_def)
  with run parts data show "\<exists>d w'. Memory_partition w self start stop = (Inr (), w') \<and>
               get_partitions w' self = get_partitions w self @
                 [\<lparr>part_start = start, part_end = stop, part_data = d\<rparr>] \<and>
               bytearrays w' ! d = getslice (buffer w self) (nat start) (nat stop) \<and>
               (\<forall>ops. bytearrays (apply_ops w' self ops) ! d =
                         getslice (buffer w self) (nat start) (nat stop) \<and>
                      get_partitions (apply_ops w' self ops) self = get_partitions w' self)"
    by blast
qed

text \<open>
  On the buffer \<open>[1, 2, 3, 4]\<close>: the range \<open>(3, 3)\<close> is refused; the range \<open>(1, 3)\<close>
  records a copy \<open>[2, 3]\<close>, which a write to address 1, a reset and a write to address 2
  leave as it is.
\<close>

theorem Memory_partition_snapshot_witness:
  "world_ok \<lparr>bytearrays = [[1, 2, 3, 4]],
      Memory_objs = [\<lparr>Memory_size = 4, Memory_memory = 0\<rparr>], Memory_partitions = [], heap_limit = 4096\<rparr> \<and>
   is_Memory \<lparr>bytearrays = [[1, 2, 3, 4]],
      Memory_objs = [\<lparr>Memory_size = 4, Memory_memory = 0\<rparr>], Memory_partitions = [], heap_limit = 4096\<rparr> 0 \<and>
   Memory_partition \<lparr>bytearrays = [[1, 2, 3, 4]],
      Memory_objs = [\<lparr>Memory_size = 4, Memory_memory = 0\<rparr>], Memory_partitions = [], heap_limit = 4096\<rparr> 0 3 3 =
     (Inl PartitionOutOfBounds, \<lparr>bytearrays = [[1, 2, 3, 4]],
      Memory_objs = [\<lparr>Memory_size = 4, Memory_memory = 0\<rparr>], Memory_partitions = [], heap_limit = 4096\<rparr>) \<and>
   Memory_partition \<lparr>bytearrays = [[1, 2, 3, 4]],
      Memory_objs = [\<lparr>Memory_size = 4, Memory_memory = 0\<rparr>], Memory_partitions = [], heap_limit = 4096\<rparr> 0 1 3 =
     (Inr (), \<lparr>bytearrays = [[1, 2, 3, 4], [2, 3]],
      Memory_objs = [\<lparr>Memory_size = 4, Memory_memory = 0\<rparr>],
      Memory_partitions = [\<lparr>part_start = 1, part_end = 3, part_data = 1\<rparr>],
      heap_limit = 4096\<rparr>) \<and>
   bytearrays (apply_ops \<lparr>bytearrays = [[1, 2, 3, 4], [2, 3]],
      Memory_objs = [\<lparr>Memory_size = 4, Memory_memory = 0\<rparr>],
      Memory_partitions = [\<lparr>part_start = 1, part_end = 3, part_data = 1\<rparr>],
      heap_limit = 4096\<rparr> 0
        [Write 1 9, Reset, Write 2 8]) ! 1 = [2, 3]"
proof -
  let ?w = "\<lparr>bytearrays = [[1, 2, 3, 4 :: byte]],
      Memory_objs = [\<lparr>Memory_size = 4, Memory_memory = 0\<rparr>], Memory_partitions = [], heap_limit = 4096\<rparr>"
  let ?w' = "\<lparr>bytearrays = [[1, 2, 3, 4 :: byte], [2, 3]],
      Memory_objs = [\<lparr>Memory_size = 4, Memory_memory = 0\<rparr>],
      Memory_partitions = [\<lparr>part_start = 1, part_end = 3, part_data = 1\<rparr>],
      heap_limit = 4096\<rparr>"
  have ok: "world_ok ?w"
    by (simp add: world_ok_def)
  have inst: "is_Memory ?w 0"
    by (simp add: is_Memory_def)
  have run: "Memory_partition ?w 0 1 3 = (Inr (), ?w')"
    by (simp add: Memory_partition_def get_partitions_def buffer_def getslice_def)
  from Memory_partition_snapshot [OF ok inst, of 3 3]
  have bad: "Memory_partition ?w 0 3 3 = (Inl PartitionOutOfBounds, ?w)"
    by simp
  from Memory_partition_snapshot [OF ok inst, of 1 3] run
  have "\<exists>d. get_partitions ?w' 0 = get_partitions ?w 0 @
                 [\<lparr>part_start = 1, part_end = 3, part_data = d\<rparr>] \<and>
             (\<forall>ops. bytearrays (apply_ops ?w' 0 ops) ! d = getslice (buffer ?w 0) (nat 1) (nat 3))"
    by auto
  then have "\<forall>ops. bytearrays (apply_ops ?w' 0 ops) ! 1 = getslice (buffer ?w 0) (nat 1) (nat 3)"
    by (auto simp: get_partitions_def)
  then have "bytearrays (apply_ops ?w' 0 [Write 1 9, Reset, Write 2 8]) ! 1 = [2, 3]"
    by (simp add: buffer_def getslice_def)
  with ok inst run bad show ?thesis by simp
qed

lemma py_range_strides: "py_range 0 512 128 = [0, 128, 256, 384]"
  by code_simp

lemma py_range_pages: "py_range 0 4 1 = [0, 1, 2, 3]"
  by code_simp

text \<open>
  Claim C2. \<^verbatim>\<open>Pagination(memory, 128)\<close> over a memory of size 512 computes
  \<open>512 // 128 = 4\<close> (the attribute \<^verbatim>\<open>page_size\<close> of the code) and registers exactly
  four partition records, one per stride of 128, at the starts 0, 128, 256 and 384. The
  end bound of each is \<open>min (start + 4) 512\<close>: the first partition is \<open>[0, 4)\<close>, not
  \<open>[0, 128)\<close>, and each record holds a copy of the four bytes of its range.
\<close>

theorem Pagination_init_512_by_128:
  assumes "world_ok w" and "is_Memory w memory"
    and "Memory_size (Memory_objs w ! memory) = 512"
  defines "n \<equiv> length (bytearrays w)" and "buf \<equiv> buffer w memory"
  defines "registered \<equiv>
     [\<lparr>part_start = 0, part_end = 4, part_data = n\<rparr>,
      \<lparr>part_start = 128, part_end = 132, part_data = n + 1\<rparr>,
      \<lparr>part_start = 256, part_end = 260, part_data = n + 2\<rparr>,
      \<lparr>part_start = 384, part_end = 388, part_data = n + 3\<rparr>]"
  shows "Pagination_init w memory 128 =
     (Inr \<lparr>Pagination_size = 128, Pagination_memory = memory, Pagination_page_size = 4,
           Pagination_pages = [(0, PyNone), (1, PyNone), (2, PyNone), (3, PyNone)]\<rparr>,
      w\<lparr>bytearrays := bytearrays w @
           [getslice buf 0 4, getslice buf 128 132, getslice buf 256 260, getslice buf 384 388],
        Memory_partitions := get_partitions w memory @ registered\<rparr>) \<and>
     list_all (\<lambda>p. part_end p = min (part_start p + 4) (Memory_size (Memory_objs w ! memory)))
       registered"
proof -
  from world_ok_buffer_ref [OF assms(1,2)]
  have a: "Memory_memory (Memory_objs w ! memory) < length (bytearrays w)" .
  show ?thesis
    using a assms(3)
    by (simp add: Pagination_init_def py_range_strides py_range_pages Memory_partition_def
        get_partitions_def buffer_def nth_append n_def buf_def registered_def)
qed

text \<open>
  Paginating the fresh \<^verbatim>\<open>Memory(512)\<close> in the initial store of a machine whose
  allocator grants 4096 bytes.
\<close>

theorem Pagination_init_512_by_128_witness:
  "world_ok (snd (Memory_init (world0 4096) 512)) \<and> is_Memory (snd (Memory_init (world0 4096) 512)) 0 \<and>
   Memory_size (Memory_objs (snd (Memory_init (world0 4096) 512)) ! 0) = 512 \<and>
   fst (Memory_init (world0 4096) 512) = Inr 0 \<and>
   get_partitions (snd (Pagination_init (snd (Memory_init (world0 4096) 512)) 0 128)) 0 =
     [\<lparr>part_start = 0, part_end = 4, part_data = 1\<rparr>,
      \<lparr>part_start = 128, part_end = 132, part_data = 2\<rparr>,
      \<lparr>part_start = 256, part_end = 260, part_data = 3\<rparr>,
      \<lparr>part_start = 384, part_end = 388, part_data = 4\<rparr>]"
proof -
  let ?w = "snd (Memory_init (world0 4096) 512)"
  have ok: "world_ok ?w"
    by (simp add: Memory_init_def bytearray_of_count_def world0_def world_ok_def)
  have inst: "is_Memory ?w 0"
    by (simp add: Memory_init_def bytearray_of_count_def world0_def is_Memory_def)
  have sz: "Memory_size (Memory_objs ?w ! 0) = 512"
    by (simp add: Memory_init_def bytearray_of_count_def world0_def)
  have new: "fst (Memory_init (world0 4096) 512) = Inr 0"
    by (simp add: Memory_init_def bytearray_of_count_def world0_def)
  have "length (bytearrays ?w) = 1" "get_partitions ?w 0 = []"
    by (simp_all add: Memory_init_def bytearray_of_count_def world0_def get_partitions_def)
  with Pagination_init_512_by_128 [OF ok inst sz] ok inst sz new show ?thesis
    by (simp add: get_partitions_def)
qed

text \<open>
  Claim C3 does not hold of the code. Two instances \<open>A\<close> and \<open>B\<close> are made by
  \<^verbatim>\<open>Memory(8)\<close>; \<open>B.partitions\<close> is empty. After \<^verbatim>\<open>A.partition(0, 4)\<close>,
  \<open>B.partitions\<close> holds the record of \<open>A\<close>: both lookups yield the one list of the
  class.
\<close>

theorem partitions_are_shared_between_instances:
  "fst (Memory_init (world0 4096) 8) = Inr 0 \<and>
   fst (Memory_init (snd (Memory_init (world0 4096) 8)) 8) = Inr 1 \<and>
   get_partitions (snd (Memory_init (snd (Memory_init (world0 4096) 8)) 8)) 1 = [] \<and>
   fst (Memory_partition (snd (Memory_init (snd (Memory_init (world0 4096) 8)) 8)) 0 0 4) = Inr () \<and>
   get_partitions
     (snd (Memory_partition (snd (Memory_init (snd (Memory_init (world0 4096) 8)) 8)) 0 0 4)) 1 =
     [\<lparr>part_start = 0, part_end = 4, part_data = 2\<rparr>]"
  by (simp add: Memory_init_def bytearray_of_count_def world0_def Memory_partition_def get_partitions_def)

text \<open>
  The invariant of the data model holds of a new instance and is kept by
  \<^verbatim>\<open>read\<close>, \<^verbatim>\<open>write\<close>, \<^verbatim>\<open>reset\<close> and \<^verbatim>\<open>partition\<close>, and by
  \<^verbatim>\<open>add\<close> when the instructions end within the buffer.
\<close>

lemma Memory_init_ok:
  assumes "Memory_init w n = (Inr self, w')"
  shows "Memory_ok w' self \<and> is_Memory w' self"
  using assms
  by (auto simp: Memory_init_def Memory_ok_def is_Memory_def buffer_def split: sum.splits
      dest!: bytearray_of_count_Inr)

lemma Memory_ok_kept_without_add:
  assumes "world_ok w" and "is_Memory w self" and "Memory_ok w self"
  shows "Memory_ok (snd (Memory_read w self address)) self"
    and "Memory_ok (snd (Memory_write w self address val)) self"
    and "Memory_ok (snd (Memory_reset w self)) self"
    and "Memory_ok (snd (Memory_partition w self start stop)) self"
proof -
  from world_ok_buffer_ref [OF assms(1,2)]
  have a: "Memory_memory (Memory_objs w ! self) < length (bytearrays w)" .
  from assms(3) show "Memory_ok (snd (Memory_read w self address)) self"
    by (simp add: Memory_read_def)
  from assms(3) a show "Memory_ok (snd (Memory_write w self address val)) self"
    by (simp add: Memory_write_def Let_def Memory_ok_def buffer_def)
  from assms(2,3) show "Memory_ok (snd (Memory_reset w self)) self"
    by (auto simp: Memory_reset_def Let_def Memory_ok_def buffer_def is_Memory_def
        split: sum.splits dest!: bytearray_of_count_Inr)
  from assms(3) a show "Memory_ok (snd (Memory_partition w self start stop)) self"
    by (simp add: Memory_partition_def Memory_ok_def buffer_def nth_append)
qed

lemma Memory_ok_kept_by_add_within_bounds:
  assumes "world_ok w" and "is_Memory w self" and "Memory_ok w self"
    and "loader = StaticLoader \<Longrightarrow>
           length (Program_instructions p) \<le> length (buffer w self)"
    and "\<And>i. loader = DynamicLoader \<Longrightarrow> lowest_zero (buffer w self) i \<Longrightarrow>
           i + length (Program_instructions p) \<le> length (buffer w self)"
  shows "Memory_ok (snd (Memory_add w self p loader)) self"
proof -
  let ?a = "Memory_memory (Memory_objs w ! self)"
  from world_ok_buffer_ref [OF assms(1,2)] have a: "?a < length (bytearrays w)" .
  have len: "length (snd (load loader p (buffer w self))) = length (buffer w self)"
  proof (cases loader)
    case StaticLoader
    with assms(4) show ?thesis by (simp add: StaticLoader_load_eq)
  next
    case DynamicLoader
    show ?thesis
    proof (cases "0 \<in> set (buffer w self)")
      case True
      then obtain i where i: "lowest_zero (buffer w self) i"
        using lowest_zero_exists by blast
      with assms(5) DynamicLoader
      have "i + length (Program_instructions p) \<le> length (buffer w self)" by simp
      with i DynamicLoader show ?thesis
        by (simp add: DynamicLoader_load_at_lowest_zero lowest_zero_def)
    next
      case False
      with DynamicLoader show ?thesis by (simp add: DynamicLoader_load_full)
    qed
  qed
  with assms(3) a show ?thesis
    by (simp add: Memory_add_def Let_def Memory_ok_def buffer_def case_prod_beta)
qed

text \<open>
  Claim C4 does not hold of the code. \<^verbatim>\<open>Memory(2)\<close> satisfies the invariant; after
  \<^verbatim>\<open>add\<close> of the fresh \<^verbatim>\<open>Program(3)\<close> with \<^verbatim>\<open>StaticLoader\<close>, which returns
  without exception, the buffer holds three bytes while \<open>size\<close> is still 2.
\<close>

theorem add_breaks_the_size_invariant:
  "Program_init 4096 3 = Inr \<lparr>Program_size = 3, Program_instructions = [0, 0, 0]\<rparr> \<and>
   fst (Memory_init (world0 4096) 2) = Inr 0 \<and>
   Memory_ok (snd (Memory_init (world0 4096) 2)) 0 \<and>
   fst (Memory_add (snd (Memory_init (world0 4096) 2)) 0
          \<lparr>Program_size = 3, Program_instructions = [0, 0, 0]\<rparr> StaticLoader) = Inr () \<and>
   buffer (snd (Memory_add (snd (Memory_init (world0 4096) 2)) 0
          \<lparr>Program_size = 3, Program_instructions = [0, 0, 0]\<rparr> StaticLoader)) 0 = [0, 0, 0] \<and>
   Memory_size (Memory_objs (snd (Memory_add (snd (Memory_init (world0 4096) 2)) 0
          \<lparr>Program_size = 3, Program_instructions = [0, 0, 0]\<rparr> StaticLoader)) ! 0) = 2 \<and>
   \<not> Memory_ok (snd (Memory_add (snd (Memory_init (world0 4096) 2)) 0
          \<lparr>Program_size = 3, Program_instructions = [0, 0, 0]\<rparr> StaticLoader)) 0"
  by (simp add: Program_init_def Memory_init_def bytearray_of_count_def world0_def Memory_ok_def
      buffer_def
      Memory_add_def StaticLoader_load_eq numeral_eq_Suc)
end
